theory Spec2Isabelle
  imports Main
begin

section \<open>The sequenced writer of the schema registry\<close>

text \<open>
  A shallow embedding of \<^verbatim>\<open>src/v/pandaproxy/schema_registry/seq_writer.cc\<close>.
  Every member function of \<^verbatim>\<open>seq_writer\<close> becomes a function that takes the writer's
  state and returns a result together with the new state. A C++ exception is the left
  summand of the result; the state is returned on that path too, because a produce request
  that was sent stays sent.

  The writer talks to three collaborators whose code is not part of the sources at hand:
  the sharded store, the applier \<^verbatim>\<open>consume_to_store\<close> and the Kafka client. They are
  parameters of the model (the record \<open>collaborators\<close>), so every theorem holds for any
  store, applier and client of the right signature.

  Seastar futures are read sequentially: \<^verbatim>\<open>co_await\<close> is function application and
  \<^verbatim>\<open>invoke_on(0, ...)\<close> is a plain call. Logging is dropped.
\<close>

subsection \<open>Data model\<close>

text \<open>
  \<^verbatim>\<open>model::offset\<close> is a named 64-bit signed integer. Signed overflow is undefined in
  C++, so offsets are read as mathematical integers: the model agrees with the code
  wherever the code's arithmetic is defined.
\<close>

type_synonym offset = int
type_synonym node_id = int
type_synonym subject = string
type_synonym schema_version = int
type_synonym schema_id = int
type_synonym schema_definition = string

text \<open>
  \<^verbatim>\<open>schema_type\<close> and \<^verbatim>\<open>compatibility_level\<close> are enumerations declared outside the
  sources at hand; the writer only copies and compares them, so they are represented by
  their underlying integers.
\<close>

type_synonym schema_type = nat
type_synonym compatibility_level = nat

text \<open>
  \<^verbatim>\<open>kafka::error_code\<close>: the writer names two enumerators, \<^verbatim>\<open>none\<close> and
  \<^verbatim>\<open>unknown_topic_or_partition\<close>; every other code is carried by its number.
\<close>

datatype error_code =
    error_code_none
  | unknown_topic_or_partition
  | other_error_code int

text \<open>
  What a call can raise. \<open>kafka_exception\<close> is \<^verbatim>\<open>kafka::exception\<close>, carrying its error
  code (the message text is dropped). \<open>store_exception\<close> stands for whatever a store
  lookup raises (the store's 404 equivalents), opaque to the writer. A failed
  \<^verbatim>\<open>assert\<close> is \<open>assertion_failure\<close>. \<open>back_of_empty_vector\<close> marks
  \<^verbatim>\<open>versions.back()\<close> on an empty vector, which C++ leaves undefined.
  \<open>exhausted_retries\<close> is raised by the retry loop of \<open>sequenced_write\<close>.
\<close>

datatype exception =
    kafka_exception error_code
  | store_exception string
  | assertion_failure
  | back_of_empty_vector
  | exhausted_retries

text \<open>
  The three typed keys, as the \<^verbatim>\<open>std::variant<schema_key, delete_subject_key, config_key>\<close>
  of \<^verbatim>\<open>delete_subject_permanent_inner\<close>. The constructor arguments are the fields
  \<^verbatim>\<open>seq\<close>, \<^verbatim>\<open>node\<close>, \<^verbatim>\<open>sub\<close> and, for a schema key, \<^verbatim>\<open>version\<close>.
\<close>

datatype key =
    schema_key offset node_id subject schema_version
  | delete_subject_key offset node_id subject
  | config_key offset node_id "subject option"




text \<open>
  The three typed values. \<open>schema_value\<close> has the fields \<^verbatim>\<open>sub\<close>, \<^verbatim>\<open>version\<close>,
  \<^verbatim>\<open>type\<close>, \<^verbatim>\<open>id\<close>, \<^verbatim>\<open>schema\<close> and \<^verbatim>\<open>deleted\<close>.
\<close>

datatype record_value =
    schema_value subject schema_version schema_type schema_id schema_definition bool
  | config_value compatibility_level
  | delete_subject_value subject schema_version

text \<open>
  A record batch is the list of its records; a record is a key with an optional value,
  and a tombstone is a key with no value. The JSON encoding of keys and values
  (\<^verbatim>\<open>to_json_iobuf\<close>) belongs to the codec and is not modelled: a batch holds typed keys.
\<close>

type_synonym record_batch = "(key \<times> record_value option) list"

text \<open>A record as the applier receives it from a fetch: its offset, key and value.\<close>

type_synonym fetched_record = "offset \<times> key \<times> record_value option"

datatype seq_marker_key_type = schema | delete_subject | config | other_key_type

text \<open>
  \<^verbatim>\<open>seq_marker\<close>, with its fields \<^verbatim>\<open>seq\<close>, \<^verbatim>\<open>node\<close>, \<^verbatim>\<open>version\<close> and
  \<^verbatim>\<open>key_type\<close>. The enumeration \<^verbatim>\<open>seq_marker_key_type\<close> is declared outside the sources
  at hand; \<open>other_key_type\<close> stands for every value that reaches the \<^verbatim>\<open>default\<close>
  branch of the switch.
\<close>

record seq_marker =
  marker_seq :: offset
  marker_node :: node_id
  marker_version :: schema_version
  marker_key_type :: seq_marker_key_type


text \<open>The result of \<^verbatim>\<open>project_ids\<close>: the fields \<^verbatim>\<open>version\<close>, \<^verbatim>\<open>id\<close>, \<^verbatim>\<open>inserted\<close>.\<close>

record insert_result =
  projected_version :: schema_version
  projected_id :: schema_id
  inserted :: bool

text \<open>
  The result of \<^verbatim>\<open>get_subject_schema\<close>, named \<^verbatim>\<open>ss\<close> in the source: the fields
  \<^verbatim>\<open>type\<close>, \<^verbatim>\<open>id\<close>, \<^verbatim>\<open>definition\<close> that the writer reads.
\<close>

record subject_schema =
  ss_type :: schema_type
  ss_id :: schema_id
  ss_definition :: schema_definition

text \<open>\<^verbatim>\<open>kafka::partition_produce_response\<close>: \<^verbatim>\<open>error_code\<close> and \<^verbatim>\<open>base_offset\<close>.\<close>

record partition_produce_response =
  response_error_code :: error_code
  base_offset :: offset

text \<open>
  The list-offsets response: \<^verbatim>\<open>offsets.data.topics\<close>, each topic with its
  \<^verbatim>\<open>partitions\<close>, each partition with \<^verbatim>\<open>offset\<close> and \<^verbatim>\<open>error_code\<close>.
\<close>

record list_offset_partition_response =
  partition_offset :: offset
  partition_error_code :: error_code

record list_offset_topic_response =
  partitions :: "list_offset_partition_response list"

record list_offsets_response =
  topics :: "list_offset_topic_response list"

subsection \<open>The collaborators\<close>

text \<open>
  The store is a value of type \<open>'s\<close>, the client's state (the log as the client sees
  it) a value of type \<open>'c\<close>.

  Store lookups read the store and may raise. \<open>applier_apply\<close> is
  \<^verbatim>\<open>consume_to_store::apply\<close>, the only way the store changes. The client's calls return
  their response and the client's next state. \<open>make_client_fetch_batch_reader\<close> is
  the reader over \<open>[start, end)\<close> run to its end: the records it delivers, in order,
  and the exception that ended it, if one did.
\<close>

record ('s, 'c) collaborators =
  node_id :: node_id
  project_ids :: "subject \<Rightarrow> schema_definition \<Rightarrow> schema_type \<Rightarrow> 's \<Rightarrow> exception + insert_result"
  get_compatibility :: "'s \<Rightarrow> exception + compatibility_level"
  get_compatibility_sub :: "subject \<Rightarrow> 's \<Rightarrow> exception + compatibility_level"
  get_subject_schema :: "subject \<Rightarrow> schema_version \<Rightarrow> bool \<Rightarrow> 's \<Rightarrow> exception + subject_schema"
  get_versions :: "subject \<Rightarrow> bool \<Rightarrow> 's \<Rightarrow> exception + schema_version list"
  is_subject_deleted :: "subject \<Rightarrow> 's \<Rightarrow> exception + bool"
  get_subject_written_at :: "subject \<Rightarrow> 's \<Rightarrow> exception + seq_marker list"
  get_subject_version_written_at :: "subject \<Rightarrow> schema_version \<Rightarrow> 's \<Rightarrow> exception + seq_marker list"
  applier_apply :: "offset \<Rightarrow> key \<Rightarrow> record_value option \<Rightarrow> 's \<Rightarrow> 's"
  list_offsets :: "'c \<Rightarrow> list_offsets_response \<times> 'c"
  produce_record_batch :: "record_batch \<Rightarrow> 'c \<Rightarrow> partition_produce_response \<times> 'c"
  make_client_fetch_batch_reader :: "offset \<Rightarrow> offset \<Rightarrow> 'c \<Rightarrow> (fetched_record list \<times> exception option) \<times> 'c"

subsection \<open>The writer's state\<close>

text \<open>The members \<^verbatim>\<open>_store\<close>, \<^verbatim>\<open>_client\<close> and \<^verbatim>\<open>_loaded_offset\<close>.\<close>

record ('s, 'c) seq_writer =
  store :: 's
  client :: 'c
  loaded_offset :: offset

subsection \<open>Advancing the loaded offset\<close>

definition advance_offset_inner :: "offset \<Rightarrow> ('s, 'c) seq_writer \<Rightarrow> ('s, 'c) seq_writer" where
  "advance_offset_inner offset st =
     (if loaded_offset st < offset then st\<lparr>loaded_offset := offset\<rparr> else st)"

definition advance_offset :: "offset \<Rightarrow> ('s, 'c) seq_writer \<Rightarrow> ('s, 'c) seq_writer" where
  "advance_offset offset st = advance_offset_inner offset st"

subsection \<open>Catching up: \<open>wait_for\<close> and \<open>read_sync\<close>\<close>

text \<open>
  Modelled from the spec: the consumer \<^verbatim>\<open>consume_to_store\<close> that \<open>wait_for\<close> hands
  to the reader is declared in \<^verbatim>\<open>storage.h\<close>, which is not among the sources. By
  sections 4.2 and 4.3 of the specification it feeds every record through the applier
  and calls \<open>advance_offset_inner\<close> after each one.
\<close>

fun consume_to_store ::
  "('s, 'c) collaborators \<Rightarrow> fetched_record list \<Rightarrow> ('s, 'c) seq_writer \<Rightarrow> ('s, 'c) seq_writer" where
  "consume_to_store env [] st = st"
| "consume_to_store env ((off, k, v) # records) st =
     consume_to_store env records
       (advance_offset_inner off (st\<lparr>store := applier_apply env off k v (store st)\<rparr>))"

definition wait_for ::
  "('s, 'c) collaborators \<Rightarrow> offset \<Rightarrow> ('s, 'c) seq_writer \<Rightarrow> (exception + unit) \<times> ('s, 'c) seq_writer" where
  "wait_for env offset st =
     (if offset > loaded_offset st then
        (case make_client_fetch_batch_reader env (loaded_offset st + 1) (offset + 1) (client st) of
           ((records, failure), c) \<Rightarrow>
             (case failure of None \<Rightarrow> Inr () | Some e \<Rightarrow> Inl e,
              consume_to_store env records (st\<lparr>client := c\<rparr>)))
      else (Inr (), st))"

definition read_sync ::
  "('s, 'c) collaborators \<Rightarrow> ('s, 'c) seq_writer \<Rightarrow> (exception + unit) \<times> ('s, 'c) seq_writer" where
  "read_sync env st =
     (case list_offsets env (client st) of
        (offsets, c) \<Rightarrow>
          (case topics offsets of
             [topic] \<Rightarrow>
               (case partitions topic of
                  [part] \<Rightarrow>
                    (if partition_error_code part \<noteq> error_code_none
                     then (Inl (kafka_exception (partition_error_code part)), st\<lparr>client := c\<rparr>)
                     else wait_for env (partition_offset part - 1) (st\<lparr>client := c\<rparr>))
                | _ \<Rightarrow> (Inl (kafka_exception unknown_topic_or_partition), st\<lparr>client := c\<rparr>))
           | _ \<Rightarrow> (Inl (kafka_exception unknown_topic_or_partition), st\<lparr>client := c\<rparr>)))"

subsection \<open>Produce and check\<close>

definition produce_and_check ::
  "('s, 'c) collaborators \<Rightarrow> offset \<Rightarrow> record_batch \<Rightarrow> ('s, 'c) seq_writer
     \<Rightarrow> (exception + bool) \<times> ('s, 'c) seq_writer" where
  "produce_and_check env write_at batch st =
     (case produce_record_batch env batch (client st) of
        (res, c) \<Rightarrow>
          (if response_error_code res \<noteq> error_code_none
           then (Inl (kafka_exception (response_error_code res)), st\<lparr>client := c\<rparr>)
           else if base_offset res = write_at then (Inr True, st\<lparr>client := c\<rparr>)
           else (Inr False, st\<lparr>client := c\<rparr>)))"

definition as_record_batch :: "key \<Rightarrow> record_value \<Rightarrow> record_batch" where
  "as_record_batch k v = [(k, Some v)]"

subsection \<open>The closures of the sequenced operations\<close>

text \<open>
  Each sequenced operation builds a closure \<^verbatim>\<open>do_write(write_at, seq)\<close> and hands it to
  \<^verbatim>\<open>sequenced_write\<close>. The closure returns an optional: a value is the operation's
  result, \<open>None\<close> (\<^verbatim>\<open>std::nullopt\<close>) is the caller's cue to retry.
\<close>

definition write_subject_version_do_write ::
  "('s, 'c) collaborators \<Rightarrow> subject \<Rightarrow> schema_definition \<Rightarrow> schema_type \<Rightarrow> offset
     \<Rightarrow> ('s, 'c) seq_writer \<Rightarrow> (exception + schema_id option) \<times> ('s, 'c) seq_writer" where
  "write_subject_version_do_write env sub def type write_at st =
     (case project_ids env sub def type (store st) of
        Inl e \<Rightarrow> (Inl e, st)
      | Inr projected \<Rightarrow>
          (if \<not> inserted projected then (Inr (Some (projected_id projected)), st)
           else
             (let k = schema_key write_at (node_id env) sub (projected_version projected);
                  val = schema_value sub (projected_version projected) type
                          (projected_id projected) def False
              in case produce_and_check env write_at (as_record_batch k val) st of
                   (Inl e, st1) \<Rightarrow> (Inl e, st1)
                 | (Inr success, st1) \<Rightarrow>
                     (if success
                      then (Inr (Some (projected_id projected)),
                            advance_offset_inner write_at
                              (st1\<lparr>store := applier_apply env write_at k (Some val) (store st1)\<rparr>))
                      else (Inr None, st1)))))"

definition write_config_do_write ::
  "('s, 'c) collaborators \<Rightarrow> subject option \<Rightarrow> compatibility_level \<Rightarrow> offset
     \<Rightarrow> ('s, 'c) seq_writer \<Rightarrow> (exception + bool option) \<times> ('s, 'c) seq_writer" where
  "write_config_do_write env sub compat' write_at st =
     (case (case sub of
              Some s \<Rightarrow> get_compatibility_sub env s (store st)
            | None \<Rightarrow> get_compatibility env (store st)) of
        Inl e \<Rightarrow> (Inl e, st)
      | Inr existing \<Rightarrow>
          (if existing = compat' then (Inr (Some False), st)
           else
             (let k = config_key write_at (node_id env) sub;
                  val = config_value compat'
              in case produce_and_check env write_at (as_record_batch k val) st of
                   (Inl e, st1) \<Rightarrow> (Inl e, st1)
                 | (Inr success, st1) \<Rightarrow>
                     (if success
                      then (Inr (Some True),
                            advance_offset_inner write_at
                              (st1\<lparr>store := applier_apply env write_at k (Some val) (store st1)\<rparr>))
                      else (Inr None, st1)))))"

definition delete_subject_version_do_write ::
  "('s, 'c) collaborators \<Rightarrow> subject \<Rightarrow> schema_version \<Rightarrow> offset
     \<Rightarrow> ('s, 'c) seq_writer \<Rightarrow> (exception + bool option) \<times> ('s, 'c) seq_writer" where
  "delete_subject_version_do_write env sub version write_at st =
     (case get_subject_schema env sub version True (store st) of
        Inl e \<Rightarrow> (Inl e, st)
      | Inr ss \<Rightarrow>
          (let k = schema_key write_at (node_id env) sub version;
               val = schema_value sub version (ss_type ss) (ss_id ss) (ss_definition ss) True
           in case produce_and_check env write_at (as_record_batch k val) st of
                (Inl e, st1) \<Rightarrow> (Inl e, st1)
              | (Inr success, st1) \<Rightarrow>
                  (if success
                   then (Inr (Some True),
                         advance_offset_inner write_at
                           (st1\<lparr>store := applier_apply env write_at k (Some val) (store st1)\<rparr>))
                   else (Inr None, st1))))"

definition delete_subject_impermanent_do_write ::
  "('s, 'c) collaborators \<Rightarrow> subject \<Rightarrow> offset
     \<Rightarrow> ('s, 'c) seq_writer \<Rightarrow> (exception + schema_version list option) \<times> ('s, 'c) seq_writer" where
  "delete_subject_impermanent_do_write env sub write_at st =
     (case get_versions env sub True (store st) of
        Inl e \<Rightarrow> (Inl e, st)
      | Inr versions \<Rightarrow>
          (case is_subject_deleted env sub (store st) of
             Inl e \<Rightarrow> (Inl e, st)
           | Inr already_deleted \<Rightarrow>
               (if already_deleted then (Inr (Some versions), st)
                else if versions = [] then (Inl back_of_empty_vector, st)
                else
                  (let version = last versions;
                       k = delete_subject_key write_at (node_id env) sub;
                       val = delete_subject_value sub version
                   in case produce_and_check env write_at (as_record_batch k val) st of
                        (Inl e, st1) \<Rightarrow> (Inl e, st1)
                      | (Inr success, st1) \<Rightarrow>
                          (if success
                           then (Inr (Some versions),
                                 advance_offset_inner write_at
                                   (st1\<lparr>store := applier_apply env write_at k (Some val) (store st1)\<rparr>))
                           else (Inr None, st1))))))"

subsection \<open>Permanent deletion\<close>

text \<open>
  \<^verbatim>\<open>delete_subject_permanent_inner\<close>. The assertions of the source are read as enabled:
  a marker of a key type outside the three cases, or an empty list of keys, ends the
  call. The permits \<^verbatim>\<open>_write_sem\<close> and \<^verbatim>\<open>_wait_for_sem\<close> order concurrent calls and have
  no place in a sequential model; \<open>delete_subject_permanent\<close> is therefore its inner
  function.

  The body of the loop over \<^verbatim>\<open>sequences\<close>: the key rebuilt from one marker.
\<close>

definition tombstone_key :: "subject \<Rightarrow> seq_marker \<Rightarrow> exception + key" where
  "tombstone_key sub s =
     (case marker_key_type s of
        schema \<Rightarrow> Inr (schema_key (marker_seq s) (marker_node s) sub (marker_version s))
      | delete_subject \<Rightarrow> Inr (delete_subject_key (marker_seq s) (marker_node s) sub)
      | config \<Rightarrow> Inr (config_key (marker_seq s) (marker_node s) (Some sub))
      | other_key_type \<Rightarrow> Inl assertion_failure)"

fun tombstone_keys :: "subject \<Rightarrow> seq_marker list \<Rightarrow> exception + key list" where
  "tombstone_keys sub [] = Inr []"
| "tombstone_keys sub (s # sequences) =
     (case tombstone_key sub s of
        Inl e \<Rightarrow> Inl e
      | Inr k \<Rightarrow>
          (case tombstone_keys sub sequences of
             Inl e \<Rightarrow> Inl e
           | Inr keys \<Rightarrow> Inr (k # keys)))"

text \<open>The replay loop: apply the tombstone, advance, \<^verbatim>\<open>offset++\<close>.\<close>

fun replay_tombstones ::
  "('s, 'c) collaborators \<Rightarrow> offset \<Rightarrow> key list \<Rightarrow> ('s, 'c) seq_writer \<Rightarrow> ('s, 'c) seq_writer" where
  "replay_tombstones env offset [] st = st"
| "replay_tombstones env offset (k # keys) st =
     replay_tombstones env (offset + 1) keys
       (advance_offset_inner offset (st\<lparr>store := applier_apply env offset k None (store st)\<rparr>))"

definition delete_subject_permanent_inner ::
  "('s, 'c) collaborators \<Rightarrow> subject \<Rightarrow> schema_version option
     \<Rightarrow> ('s, 'c) seq_writer \<Rightarrow> (exception + schema_version list) \<times> ('s, 'c) seq_writer" where
  "delete_subject_permanent_inner env sub version st =
     (case (case version of
              Some v \<Rightarrow> get_subject_version_written_at env sub v (store st)
            | None \<Rightarrow> get_subject_written_at env sub (store st)) of
        Inl e \<Rightarrow> (Inl e, st)
      | Inr sequences \<Rightarrow>
          (case tombstone_keys sub sequences of
             Inl e \<Rightarrow> (Inl e, st)
           | Inr keys \<Rightarrow>
               (if keys = [] then (Inl assertion_failure, st)
                else
                  (case produce_record_batch env (map (\<lambda>k. (k, None)) keys) (client st) of
                     (res, c) \<Rightarrow>
                       (if response_error_code res \<noteq> error_code_none
                        then (Inl (kafka_exception (response_error_code res)), st\<lparr>client := c\<rparr>)
                        else (Inr [], replay_tombstones env (base_offset res) keys (st\<lparr>client := c\<rparr>)))))))"

definition delete_subject_permanent ::
  "('s, 'c) collaborators \<Rightarrow> subject \<Rightarrow> schema_version option
     \<Rightarrow> ('s, 'c) seq_writer \<Rightarrow> (exception + schema_version list) \<times> ('s, 'c) seq_writer" where
  "delete_subject_permanent env sub version st = delete_subject_permanent_inner env sub version st"

subsection \<open>What a sequenced write does with the produce response\<close>


subsection \<open>The retry loop\<close>

text \<open>
  Modelled from the spec: \<^verbatim>\<open>sequenced_write\<close> is a template declared in
  \<^verbatim>\<open>seq_writer.h\<close>, which is not among the sources. Section 4.1 of the specification
  gives its steps: (1) catch up to the tail of the log; (2) \<open>write_at = _loaded_offset + 1\<close>;
  (3) run the closure at \<open>write_at\<close>; (4) when the closure asks for a retry, catch up
  and repeat from step 2, within a retry budget (default 5), after which the operation
  fails with \<open>exhausted_retries\<close> (section 7: after N collisions). Section 4.5: an
  exception of the closure or of the catch-up is passed on to the caller.

  The last component of the result lists the \<open>write_at\<close> of every invocation of the
  closure, in order. It is not a value of the program: it is there to state how often
  the closure ran.
\<close>

definition retry_budget :: nat where
  "retry_budget = 5"

fun sequenced_write_loop ::
  "('s, 'c) collaborators \<Rightarrow> nat
     \<Rightarrow> (offset \<Rightarrow> ('s, 'c) seq_writer \<Rightarrow> (exception + 'a option) \<times> ('s, 'c) seq_writer)
     \<Rightarrow> ('s, 'c) seq_writer \<Rightarrow> ((exception + 'a) \<times> ('s, 'c) seq_writer) \<times> offset list" where
  "sequenced_write_loop env 0 do_write st = ((Inl exhausted_retries, st), [])"
| "sequenced_write_loop env (Suc budget) do_write st =
     (let write_at = loaded_offset st + 1
      in case do_write write_at st of
           (Inl e, st1) \<Rightarrow> ((Inl e, st1), [write_at])
         | (Inr (Some r), st1) \<Rightarrow> ((Inr r, st1), [write_at])
         | (Inr None, st1) \<Rightarrow>
             (case read_sync env st1 of
                (Inl e, st2) \<Rightarrow> ((Inl e, st2), [write_at])
              | (Inr u, st2) \<Rightarrow>
                  (case sequenced_write_loop env budget do_write st2 of
                     (outcome, attempts) \<Rightarrow> (outcome, write_at # attempts))))"

definition sequenced_write ::
  "('s, 'c) collaborators \<Rightarrow> nat
     \<Rightarrow> (offset \<Rightarrow> ('s, 'c) seq_writer \<Rightarrow> (exception + 'a option) \<times> ('s, 'c) seq_writer)
     \<Rightarrow> ('s, 'c) seq_writer \<Rightarrow> ((exception + 'a) \<times> ('s, 'c) seq_writer) \<times> offset list" where
  "sequenced_write env budget do_write st =
     (case read_sync env st of
        (Inl e, st1) \<Rightarrow> ((Inl e, st1), [])
      | (Inr u, st1) \<Rightarrow> sequenced_write_loop env budget do_write st1)"

text \<open>The four sequenced operations: each hands its closure to \<open>sequenced_write\<close>.\<close>

definition write_subject_version ::
  "('s, 'c) collaborators \<Rightarrow> subject \<Rightarrow> schema_definition \<Rightarrow> schema_type
     \<Rightarrow> ('s, 'c) seq_writer \<Rightarrow> ((exception + schema_id) \<times> ('s, 'c) seq_writer) \<times> offset list" where
  "write_subject_version env sub def type st =
     sequenced_write env retry_budget (write_subject_version_do_write env sub def type) st"

definition write_config ::
  "('s, 'c) collaborators \<Rightarrow> subject option \<Rightarrow> compatibility_level
     \<Rightarrow> ('s, 'c) seq_writer \<Rightarrow> ((exception + bool) \<times> ('s, 'c) seq_writer) \<times> offset list" where
  "write_config env sub compat' st =
     sequenced_write env retry_budget (write_config_do_write env sub compat') st"

definition delete_subject_version ::
  "('s, 'c) collaborators \<Rightarrow> subject \<Rightarrow> schema_version
     \<Rightarrow> ('s, 'c) seq_writer \<Rightarrow> ((exception + bool) \<times> ('s, 'c) seq_writer) \<times> offset list" where
  "delete_subject_version env sub version st =
     sequenced_write env retry_budget (delete_subject_version_do_write env sub version) st"

definition delete_subject_impermanent ::
  "('s, 'c) collaborators \<Rightarrow> subject
     \<Rightarrow> ('s, 'c) seq_writer \<Rightarrow> ((exception + schema_version list) \<times> ('s, 'c) seq_writer) \<times> offset list" where
  "delete_subject_impermanent env sub st =
     sequenced_write env retry_budget (delete_subject_impermanent_do_write env sub) st"

subsection \<open>The error kinds of the specification\<close>


subsection \<open>Concrete collaborators\<close>

text \<open>
  Modelled from the spec: a small store and applier after sections 4.3 and 4.4, and a
  log client after section 6 whose state is the log itself. They are the concrete
  collaborators at which the theorems below are instantiated.
\<close>

record test_store =
  ts_schemas :: "(subject \<times> schema_version \<times> schema_id \<times> schema_definition \<times> schema_type \<times> bool) list"
  ts_compat :: "(subject option \<times> compatibility_level) list"
  ts_deleted :: "subject list"
  ts_markers :: "(subject option \<times> seq_marker) list"

definition empty_store :: test_store where
  "empty_store = \<lparr>ts_schemas = [], ts_compat = [], ts_deleted = [], ts_markers = []\<rparr>"

definition not_found :: exception where
  "not_found = store_exception ''not_found''"

definition test_project_ids ::
  "subject \<Rightarrow> schema_definition \<Rightarrow> schema_type \<Rightarrow> test_store \<Rightarrow> exception + insert_result" where
  "test_project_ids sub def type s =
     (case find (\<lambda>(sub', v, i, d, t, del). sub' = sub \<and> d = def \<and> t = type) (ts_schemas s) of
        Some (sub', v, i, d, t, del) \<Rightarrow>
          Inr \<lparr>projected_version = v, projected_id = i, inserted = False\<rparr>
      | None \<Rightarrow>
          Inr \<lparr>projected_version = int (length (filter (\<lambda>(sub', r). sub' = sub) (ts_schemas s))) + 1,
               projected_id = int (length (ts_schemas s)) + 1,
               inserted = True\<rparr>)"

definition test_get_compatibility :: "test_store \<Rightarrow> exception + compatibility_level" where
  "test_get_compatibility s =
     Inr (case map_of (ts_compat s) None of Some c \<Rightarrow> c | None \<Rightarrow> 0)"

definition test_get_compatibility_sub :: "subject \<Rightarrow> test_store \<Rightarrow> exception + compatibility_level" where
  "test_get_compatibility_sub sub s =
     (case map_of (ts_compat s) (Some sub) of
        Some c \<Rightarrow> Inr c
      | None \<Rightarrow> test_get_compatibility s)"

definition test_get_subject_schema ::
  "subject \<Rightarrow> schema_version \<Rightarrow> bool \<Rightarrow> test_store \<Rightarrow> exception + subject_schema" where
  "test_get_subject_schema sub version include_deleted s =
     (case find (\<lambda>(sub', v, i, d, t, del). sub' = sub \<and> v = version \<and> (include_deleted \<or> \<not> del))
             (ts_schemas s) of
        Some (sub', v, i, d, t, del) \<Rightarrow> Inr \<lparr>ss_type = t, ss_id = i, ss_definition = d\<rparr>
      | None \<Rightarrow> Inl not_found)"

definition test_get_versions ::
  "subject \<Rightarrow> bool \<Rightarrow> test_store \<Rightarrow> exception + schema_version list" where
  "test_get_versions sub include_deleted s =
     (case map (\<lambda>(sub', v, r). v)
             (filter (\<lambda>(sub', v, i, d, t, del). sub' = sub \<and> (include_deleted \<or> \<not> del)) (ts_schemas s)) of
        [] \<Rightarrow> Inl not_found
      | v # vs \<Rightarrow> Inr (v # vs))"

definition test_is_subject_deleted :: "subject \<Rightarrow> test_store \<Rightarrow> exception + bool" where
  "test_is_subject_deleted sub s = Inr (sub \<in> set (ts_deleted s))"

definition test_get_subject_written_at :: "subject \<Rightarrow> test_store \<Rightarrow> exception + seq_marker list" where
  "test_get_subject_written_at sub s =
     (if sub \<in> set (ts_deleted s)
      then Inr (map snd (filter (\<lambda>(sub', m). sub' = Some sub) (ts_markers s)))
      else Inl not_found)"

definition test_get_subject_version_written_at ::
  "subject \<Rightarrow> schema_version \<Rightarrow> test_store \<Rightarrow> exception + seq_marker list" where
  "test_get_subject_version_written_at sub version s =
     (case filter (\<lambda>m. marker_key_type m = schema \<and> marker_version m = version)
             (map snd (filter (\<lambda>(sub', m). sub' = Some sub) (ts_markers s))) of
        [] \<Rightarrow> Inl not_found
      | m # ms \<Rightarrow> Inr (m # ms))"

fun test_apply :: "offset \<Rightarrow> key \<Rightarrow> record_value option \<Rightarrow> test_store \<Rightarrow> test_store" where
  "test_apply offset (schema_key seq node sub version) (Some (schema_value sub' version' type id' def del)) s =
     s\<lparr>ts_schemas := filter (\<lambda>(sub'', v, r). \<not> (sub'' = sub \<and> v = version)) (ts_schemas s)
                        @ [(sub, version, id', def, type, del)],
       ts_markers := ts_markers s
                        @ [(Some sub, \<lparr>marker_seq = seq, marker_node = node,
                                       marker_version = version, marker_key_type = schema\<rparr>)]\<rparr>"
| "test_apply offset (schema_key seq node sub version) None s =
     s\<lparr>ts_schemas := filter (\<lambda>(sub'', v, r). \<not> (sub'' = sub \<and> v = version)) (ts_schemas s),
       ts_markers := filter (\<lambda>(sub'', m). \<not> (sub'' = Some sub \<and> marker_seq m = seq
                                \<and> marker_key_type m = schema)) (ts_markers s)\<rparr>"
| "test_apply offset (config_key seq node sub) (Some (config_value c)) s =
     s\<lparr>ts_compat := (sub, c) # filter (\<lambda>(sub'', r). sub'' \<noteq> sub) (ts_compat s),
       ts_markers := ts_markers s
                        @ [(sub, \<lparr>marker_seq = seq, marker_node = node,
                                  marker_version = 0, marker_key_type = config\<rparr>)]\<rparr>"
| "test_apply offset (config_key seq node sub) None s =
     s\<lparr>ts_compat := filter (\<lambda>(sub'', r). sub'' \<noteq> sub) (ts_compat s),
       ts_markers := filter (\<lambda>(sub'', m). \<not> (sub'' = sub \<and> marker_seq m = seq
                                \<and> marker_key_type m = config)) (ts_markers s)\<rparr>"
| "test_apply offset (delete_subject_key seq node sub) (Some (delete_subject_value sub' version)) s =
     s\<lparr>ts_deleted := sub # ts_deleted s,
       ts_markers := ts_markers s
                        @ [(Some sub, \<lparr>marker_seq = seq, marker_node = node,
                                       marker_version = version, marker_key_type = delete_subject\<rparr>)]\<rparr>"
| "test_apply offset (delete_subject_key seq node sub) None s =
     s\<lparr>ts_deleted := filter (\<lambda>sub''. sub'' \<noteq> sub) (ts_deleted s),
       ts_markers := filter (\<lambda>(sub'', m). \<not> (sub'' = Some sub \<and> marker_seq m = seq
                                \<and> marker_key_type m = delete_subject)) (ts_markers s)\<rparr>"
| "test_apply offset k v s = s"

text \<open>The log client: the log is the list of its records, the record at index \<open>i\<close> has offset \<open>i\<close>.\<close>

definition test_list_offsets :: "record_batch \<Rightarrow> list_offsets_response \<times> record_batch" where
  "test_list_offsets log =
     (\<lparr>topics = [\<lparr>partitions = [\<lparr>partition_offset = int (length log),
                                    partition_error_code = error_code_none\<rparr>]\<rparr>]\<rparr>, log)"

definition test_produce_record_batch ::
  "record_batch \<Rightarrow> record_batch \<Rightarrow> partition_produce_response \<times> record_batch" where
  "test_produce_record_batch batch log =
     (\<lparr>response_error_code = error_code_none, base_offset = int (length log)\<rparr>, log @ batch)"

definition test_fetch ::
  "offset \<Rightarrow> offset \<Rightarrow> record_batch \<Rightarrow> (fetched_record list \<times> exception option) \<times> record_batch" where
  "test_fetch start end' log =
     ((map (\<lambda>i. (int i, fst (log ! i), snd (log ! i))) [nat start ..< min (nat end') (length log)],
       None), log)"

definition test_env :: "(test_store, record_batch) collaborators" where
  "test_env =
     \<lparr>node_id = 1,
      project_ids = test_project_ids,
      get_compatibility = test_get_compatibility,
      get_compatibility_sub = test_get_compatibility_sub,
      get_subject_schema = test_get_subject_schema,
      get_versions = test_get_versions,
      is_subject_deleted = test_is_subject_deleted,
      get_subject_written_at = test_get_subject_written_at,
      get_subject_version_written_at = test_get_subject_version_written_at,
      applier_apply = test_apply,
      list_offsets = test_list_offsets,
      produce_record_batch = test_produce_record_batch,
      make_client_fetch_batch_reader = test_fetch\<rparr>"



text \<open>A fresh writer: an empty store, an empty log, nothing loaded.\<close>

definition fresh :: "(test_store, record_batch) seq_writer" where
  "fresh = \<lparr>store = empty_store, client = [], loaded_offset = - 1\<rparr>"

text \<open>The writer after \<open>(s1, D1)\<close> has been registered at offset 0.\<close>

definition registered :: "(test_store, record_batch) seq_writer" where
  "registered =
     \<lparr>store = \<lparr>ts_schemas = [(''s1'', 1, 1, ''D1'', 0, False)], ts_compat = [], ts_deleted = [],
               ts_markers = [(Some ''s1'', \<lparr>marker_seq = 0, marker_node = 1, marker_version = 1,
                                            marker_key_type = schema\<rparr>)]\<rparr>,
      client = [(schema_key 0 1 ''s1'' 1, Some (schema_value ''s1'' 1 0 1 ''D1'' False))],
      loaded_offset = 0\<rparr>"



text \<open>
  The writer after the fourth scenario of the specification, before the permanent deletion:
  \<open>(s1, D1)\<close> registered, the compatibility of \<open>s1\<close> set, \<open>s1\<close> soft-deleted.
\<close>

definition soft_deleted :: "(test_store, record_batch) seq_writer" where
  "soft_deleted =
     \<lparr>store = \<lparr>ts_schemas = [(''s1'', 1, 1, ''D1'', 0, False)],
               ts_compat = [(Some ''s1'', 3)],
               ts_deleted = [''s1''],
               ts_markers =
                 [(Some ''s1'', \<lparr>marker_seq = 0, marker_node = 1, marker_version = 1,
                                 marker_key_type = schema\<rparr>),
                  (Some ''s1'', \<lparr>marker_seq = 1, marker_node = 1, marker_version = 0,
                                 marker_key_type = config\<rparr>),
                  (Some ''s1'', \<lparr>marker_seq = 2, marker_node = 1, marker_version = 1,
                                 marker_key_type = delete_subject\<rparr>)]\<rparr>,
      client = [(schema_key 0 1 ''s1'' 1, Some (schema_value ''s1'' 1 0 1 ''D1'' False)),
                (config_key 1 1 (Some ''s1''), Some (config_value 3)),
                (delete_subject_key 2 1 ''s1'', Some (delete_subject_value ''s1'' 1))],
      loaded_offset = 2\<rparr>"



section \<open>Properties\<close>

subsection \<open>The loaded offset never decreases\<close>

lemma loaded_offset_advance_offset_inner:
  "loaded_offset (advance_offset_inner offset st) = max (loaded_offset st) offset"
  by (simp add: advance_offset_inner_def)

lemma store_advance_offset_inner: "store (advance_offset_inner offset st) = store st"
  by (simp add: advance_offset_inner_def)

lemma client_advance_offset_inner: "client (advance_offset_inner offset st) = client st"
  by (simp add: advance_offset_inner_def)

lemmas advance_offset_inner_fields =
  loaded_offset_advance_offset_inner store_advance_offset_inner client_advance_offset_inner

lemma consume_to_store_mono:
  "loaded_offset st \<le> loaded_offset (consume_to_store env records st)"
proof (induction records arbitrary: st)
  case Nil
  show ?case by simp
next
  case (Cons r records)
  obtain off k v where r: "r = (off, k, v)" by (cases r)
  have "loaded_offset st \<le> loaded_offset
          (advance_offset_inner off (st\<lparr>store := applier_apply env off k v (store st)\<rparr>))"
    by (simp add: advance_offset_inner_fields)
  also have "\<dots> \<le> loaded_offset (consume_to_store env (r # records) st)"
    unfolding r consume_to_store.simps by (rule Cons.IH)
  finally show ?case .
qed

lemma wait_for_mono: "loaded_offset st \<le> loaded_offset (snd (wait_for env offset st))"
proof (cases "offset > loaded_offset st")
  case False
  then show ?thesis by (simp add: wait_for_def)
next
  case True
  obtain records failure c where
    f: "make_client_fetch_batch_reader env (loaded_offset st + 1) (offset + 1) (client st)
          = ((records, failure), c)"
    by (metis prod.exhaust)
  have "loaded_offset (st\<lparr>client := c\<rparr>) \<le> loaded_offset (consume_to_store env records (st\<lparr>client := c\<rparr>))"
    by (rule consume_to_store_mono)
  with True f show ?thesis by (simp add: wait_for_def)
qed

lemma read_sync_mono: "loaded_offset st \<le> loaded_offset (snd (read_sync env st))"
proof -
  obtain offsets c where l: "list_offsets env (client st) = (offsets, c)"
    by (cases "list_offsets env (client st)")
  have w: "\<And>offset. loaded_offset st \<le> loaded_offset (snd (wait_for env offset (st\<lparr>client := c\<rparr>)))"
    using wait_for_mono [of "st\<lparr>client := c\<rparr>"] by simp
  show ?thesis
    unfolding read_sync_def l
    by (simp add: w split: list.split)
qed

lemma produce_and_check_loaded_offset:
  "loaded_offset (snd (produce_and_check env write_at batch st)) = loaded_offset st"
  by (simp add: produce_and_check_def split: prod.split)

lemma produce_and_check_store:
  "store (snd (produce_and_check env write_at batch st)) = store st"
  by (simp add: produce_and_check_def split: prod.split)

lemma check_apply_advance_mono:
  "loaded_offset st \<le> loaded_offset (snd
     (case produce_and_check env write_at batch st of
        (Inl e, st1) \<Rightarrow> (Inl e, st1)
      | (Inr success, st1) \<Rightarrow>
          (if success
           then (Inr (Some r),
                 advance_offset_inner write_at
                   (st1\<lparr>store := applier_apply env write_at k v (store st1)\<rparr>))
           else (Inr None, st1))))"
  by (cases "produce_record_batch env batch (client st)")
     (simp add: produce_and_check_def advance_offset_inner_fields)

lemma write_subject_version_do_write_mono:
  "loaded_offset st \<le> loaded_offset (snd (write_subject_version_do_write env sub def type write_at st))"
  by (simp add: write_subject_version_do_write_def Let_def check_apply_advance_mono
        split: sum.split)

lemma write_config_do_write_mono:
  "loaded_offset st \<le> loaded_offset (snd (write_config_do_write env sub compat' write_at st))"
  by (simp add: write_config_do_write_def Let_def check_apply_advance_mono split: sum.split)

lemma delete_subject_version_do_write_mono:
  "loaded_offset st \<le> loaded_offset (snd (delete_subject_version_do_write env sub version write_at st))"
  by (simp add: delete_subject_version_do_write_def Let_def check_apply_advance_mono
        split: sum.split)

lemma delete_subject_impermanent_do_write_mono:
  "loaded_offset st \<le> loaded_offset (snd (delete_subject_impermanent_do_write env sub write_at st))"
  by (simp add: delete_subject_impermanent_do_write_def Let_def check_apply_advance_mono
        split: sum.split)

lemma replay_tombstones_mono:
  "loaded_offset st \<le> loaded_offset (replay_tombstones env offset keys st)"
proof (induction keys arbitrary: offset st)
  case Nil
  show ?case by simp
next
  case (Cons k keys)
  have "loaded_offset st \<le> loaded_offset
          (advance_offset_inner offset (st\<lparr>store := applier_apply env offset k None (store st)\<rparr>))"
    by (simp add: advance_offset_inner_fields)
  also have "\<dots> \<le> loaded_offset (replay_tombstones env offset (k # keys) st)"
    unfolding replay_tombstones.simps by (rule Cons.IH)
  finally show ?case .
qed

lemma delete_subject_permanent_inner_mono:
  "loaded_offset st \<le> loaded_offset (snd (delete_subject_permanent_inner env sub version st))"
proof -
  have r: "\<And>offset keys c. loaded_offset st
             \<le> loaded_offset (replay_tombstones env offset keys (st\<lparr>client := c\<rparr>))"
    using replay_tombstones_mono [of "st\<lparr>client := c\<rparr>" for c] by simp
  show ?thesis
    by (simp add: delete_subject_permanent_inner_def r split: sum.split prod.split)
qed

lemma sequenced_write_loop_mono:
  assumes "\<And>write_at s. loaded_offset s \<le> loaded_offset (snd (do_write write_at s))"
  shows "loaded_offset st
           \<le> loaded_offset (snd (fst (sequenced_write_loop env budget do_write st)))"
proof (induction budget arbitrary: st)
  case 0
  show ?case by simp
next
  case (Suc budget)
  obtain r st1 where d: "do_write (loaded_offset st + 1) st = (r, st1)"
    by (cases "do_write (loaded_offset st + 1) st")
  have le1: "loaded_offset st \<le> loaded_offset st1"
    using assms [of st "loaded_offset st + 1"] d by simp
  obtain u st2 where s: "read_sync env st1 = (u, st2)"
    by (cases "read_sync env st1")
  have le2: "loaded_offset st1 \<le> loaded_offset st2"
    using read_sync_mono [of st1 env] s by simp
  have le3: "loaded_offset st2
               \<le> loaded_offset (snd (fst (sequenced_write_loop env budget do_write st2)))"
    by (rule Suc.IH)
  show ?case
    using d s le1 le2 le3
    by (auto simp add: Let_def split: sum.split option.split prod.split)
qed

lemma sequenced_write_mono:
  assumes "\<And>write_at s. loaded_offset s \<le> loaded_offset (snd (do_write write_at s))"
  shows "loaded_offset st \<le> loaded_offset (snd (fst (sequenced_write env budget do_write st)))"
proof -
  obtain u st1 where s: "read_sync env st = (u, st1)"
    by (cases "read_sync env st")
  have le1: "loaded_offset st \<le> loaded_offset st1"
    using read_sync_mono [of st env] s by simp
  have le2: "loaded_offset st1
               \<le> loaded_offset (snd (fst (sequenced_write_loop env budget do_write st1)))"
    using assms by (rule sequenced_write_loop_mono)
  show ?thesis
    using s le1 le2 by (simp add: sequenced_write_def split: sum.split)
qed

text \<open>
  Claim C2. The loaded offset is monotonically non-decreasing: after
  \<open>advance_offset\<close> or \<open>advance_offset_inner\<close> it is the maximum of its previous
  value and the argument, and no operation of the writer decreases it: not the catch-up
  (\<open>wait_for\<close>, \<open>read_sync\<close>), not \<open>produce_and_check\<close>, not the closure of any
  sequenced operation at any \<open>write_at\<close>, not the permanent deletion, and not a
  sequenced operation run through the retry loop.
\<close>

theorem loaded_offset_never_decreases:
  "loaded_offset (advance_offset_inner offset st) = max (loaded_offset st) offset
   \<and> loaded_offset (advance_offset offset st) = max (loaded_offset st) offset
   \<and> loaded_offset st \<le> loaded_offset (snd (wait_for env offset st))
   \<and> loaded_offset st \<le> loaded_offset (snd (read_sync env st))
   \<and> loaded_offset st \<le> loaded_offset (snd (produce_and_check env write_at batch st))
   \<and> loaded_offset st \<le> loaded_offset (snd (write_subject_version_do_write env sub def type write_at st))
   \<and> loaded_offset st \<le> loaded_offset (snd (write_config_do_write env opt_sub compat' write_at st))
   \<and> loaded_offset st \<le> loaded_offset (snd (delete_subject_version_do_write env sub version write_at st))
   \<and> loaded_offset st \<le> loaded_offset (snd (delete_subject_impermanent_do_write env sub write_at st))
   \<and> loaded_offset st \<le> loaded_offset (snd (delete_subject_permanent env sub opt_version st))
   \<and> loaded_offset st \<le> loaded_offset (snd (fst (write_subject_version env sub def type st)))
   \<and> loaded_offset st \<le> loaded_offset (snd (fst (write_config env opt_sub compat' st)))
   \<and> loaded_offset st \<le> loaded_offset (snd (fst (delete_subject_version env sub version st)))
   \<and> loaded_offset st \<le> loaded_offset (snd (fst (delete_subject_impermanent env sub st)))"
  by (simp add: loaded_offset_advance_offset_inner advance_offset_def wait_for_mono read_sync_mono
        produce_and_check_loaded_offset write_subject_version_do_write_mono
        write_config_do_write_mono delete_subject_version_do_write_mono
        delete_subject_impermanent_do_write_mono delete_subject_permanent_def
        delete_subject_permanent_inner_mono write_subject_version_def write_config_def
        delete_subject_version_def delete_subject_impermanent_def sequenced_write_mono)

theorem loaded_offset_never_decreases_witness:
  "loaded_offset (advance_offset_inner 7 fresh) = 7
   \<and> loaded_offset (advance_offset_inner (- 5) fresh) = - 1"
  using loaded_offset_never_decreases [THEN conjunct1, of 7 fresh]
        loaded_offset_never_decreases [THEN conjunct1, of "- 5" fresh]
  by (simp add: fresh_def)

subsection \<open>The closures of the sequenced operations\<close>






lemmas test_defs =
  test_env_def fresh_def empty_store_def test_project_ids_def test_get_compatibility_def
  test_get_compatibility_sub_def test_get_subject_schema_def test_get_versions_def
  test_is_subject_deleted_def test_get_subject_written_at_def
  test_get_subject_version_written_at_def test_list_offsets_def test_produce_record_batch_def
  test_fetch_def not_found_def





subsection \<open>Registering a known schema\<close>

text \<open>
  Claim C7. \<open>write_subject_version\<close> is idempotent: whenever \<open>project_ids\<close> reports
  \<open>inserted = false\<close> for \<open>(subject, definition, type)\<close>, the closure returns the
  existing schema id and hands back the writer unchanged, at any \<open>write_at\<close>: the store is
  the same, and so is the client, whatever its produce function is, so no record was
  produced.
\<close>

theorem write_subject_version_idempotent:
  "project_ids env sub defn type (store st) = Inr projected \<Longrightarrow> \<not> inserted projected \<Longrightarrow>
     write_subject_version_do_write env sub defn type write_at st
       = (Inr (Some (projected_id projected)), st)"
  by (simp add: write_subject_version_do_write_def)

theorem write_subject_version_idempotent_witness:
  "project_ids test_env ''s1'' ''D1'' 0 (store registered)
     = Inr \<lparr>projected_version = 1, projected_id = 1, inserted = False\<rparr>
   \<and> write_subject_version_do_write test_env ''s1'' ''D1'' 0 1 registered
       = (Inr (Some 1), registered)"
proof -
  have h: "project_ids test_env ''s1'' ''D1'' 0 (store registered)
             = Inr \<lparr>projected_version = 1, projected_id = 1, inserted = False\<rparr>"
    by (simp add: test_defs registered_def)
  show ?thesis
    using h write_subject_version_idempotent [OF h, of 1] by simp
qed

subsection \<open>Catching up\<close>










subsection \<open>Setting the compatibility level\<close>



subsection \<open>Permanent deletion\<close>










lemma tombstone_keys_soft_deleted:
  "tombstone_keys ''s1'' (map snd (ts_markers (store soft_deleted)))
     = Inr [schema_key 0 1 ''s1'' 1, config_key 1 1 (Some ''s1''), delete_subject_key 2 1 ''s1'']"
  by (simp add: soft_deleted_def tombstone_key_def)


text \<open>
  Claim C10. Whenever \<open>delete_subject_permanent\<close> completes without an exception, the
  list of versions it returns is empty, whatever the subject, the optional version and the
  number of records it tombstones.
\<close>

theorem delete_subject_permanent_returns_no_versions:
  "fst (delete_subject_permanent env sub version st) = Inr versions \<Longrightarrow> versions = []"
  by (auto simp add: delete_subject_permanent_def delete_subject_permanent_inner_def
        split: sum.splits prod.splits if_splits)

lemma delete_subject_permanent_soft_deleted:
  "delete_subject_permanent test_env ''s1'' None soft_deleted =
     (Inr [],
      \<lparr>store = empty_store,
       client = client soft_deleted
                  @ [(schema_key 0 1 ''s1'' 1, None), (config_key 1 1 (Some ''s1''), None),
                     (delete_subject_key 2 1 ''s1'', None)],
       loaded_offset = 5\<rparr>)"
proof -
  have q: "get_subject_written_at test_env ''s1'' (store soft_deleted)
             = Inr (map snd (ts_markers (store soft_deleted)))"
    by (simp add: test_defs soft_deleted_def)
  show ?thesis
    unfolding delete_subject_permanent_def delete_subject_permanent_inner_def
    by (simp add: q tombstone_keys_soft_deleted)
       (simp add: test_defs soft_deleted_def advance_offset_inner_def)
qed

theorem delete_subject_permanent_returns_no_versions_witness:
  "fst (delete_subject_permanent test_env ''s1'' None soft_deleted) = Inr []
   \<and> fst (delete_subject_permanent test_env ''s1'' (Some 1) soft_deleted) = Inr []"
proof -
  have "\<exists>versions. fst (delete_subject_permanent test_env ''s1'' None soft_deleted) = Inr versions"
    by (simp add: delete_subject_permanent_soft_deleted)
  moreover have "\<exists>versions. fst (delete_subject_permanent test_env ''s1'' (Some 1) soft_deleted) = Inr versions"
    by (simp add: delete_subject_permanent_def delete_subject_permanent_inner_def test_defs
          soft_deleted_def tombstone_key_def)
  ultimately show ?thesis
    using delete_subject_permanent_returns_no_versions by blast
qed

subsection \<open>The retry loop\<close>






lemma write_config_fresh:
  "write_config test_env None 2 fresh =
     ((Inr True,
       \<lparr>store = \<lparr>ts_schemas = [], ts_compat = [(None, 2)], ts_deleted = [],
                 ts_markers = [(None, \<lparr>marker_seq = 0, marker_node = 1, marker_version = 0,
                                        marker_key_type = config\<rparr>)]\<rparr>,
        client = [(config_key 0 1 None, Some (config_value 2))], loaded_offset = 0\<rparr>), [0])"
  by (simp add: write_config_def sequenced_write_def retry_budget_def read_sync_def wait_for_def
        write_config_do_write_def produce_and_check_def as_record_batch_def
        advance_offset_inner_def test_defs eval_nat_numeral)







subsection \<open>The operations as a whole\<close>

text \<open>
  Through the retry loop, registering a known schema is the catch-up followed by one run
  of the closure: the operation returns the existing id and leaves the writer as the
  catch-up left it.
\<close>

lemma write_subject_version_known_schema:
  assumes "read_sync env st = (Inr (), st1)"
      and "project_ids env sub defn type (store st1) = Inr projected"
      and "\<not> inserted projected"
  shows "write_subject_version env sub defn type st
           = ((Inr (projected_id projected), st1), [loaded_offset st1 + 1])"
  using assms
  by (simp add: write_subject_version_def sequenced_write_def retry_budget_def
        eval_nat_numeral write_subject_version_do_write_def)

text \<open>
  The third scenario of the specification at the concrete collaborators: the first
  \<open>write_config None 2\<close> on a fresh writer returns \<open>True\<close> (lemma
  \<open>write_config_fresh\<close>), the second returns \<open>False\<close> and leaves the writer, and
  with it the log, as it was.
\<close>

lemma write_config_twice:
  "write_config test_env None 2 (snd (fst (write_config test_env None 2 fresh)))
     = ((Inr False, snd (fst (write_config test_env None 2 fresh))), [1])"
  by (simp add: write_config_fresh)
     (simp add: write_config_def sequenced_write_def retry_budget_def read_sync_def wait_for_def
        write_config_do_write_def test_defs eval_nat_numeral)

end
